theory Spec2Isabelle
  imports Complex_Main "HOL-Library.Multiset"
begin

section \<open>Data model of evolium.py\<close>

text \<open>
  The named tuples of the program. Python floats are modelled as real numbers, the
  integers of the command line (cycles, popSize, dps, the bounds) as \<open>int\<close>, and an unset
  fitness (\<open>None\<close>) as \<open>None\<close> of an option.
\<close>

record Formula =
  m :: real
  c :: real
  fitness :: "real option"

record DataPoint =
  x :: real
  y :: real

record MCRange =
  minM :: int
  maxM :: int
  minC :: int
  maxC :: int

record HyperParams =
  cycles :: int
  mcrange :: MCRange
  popSize :: int
  mutProb :: real
  mutVal :: real
  dps :: int
  tournamentSize :: real
  goldenSize :: real
  immigrationSize :: real

text \<open>
  The exceptions the program can raise: the \<open>ValueError\<close> of \<open>random.sample\<close> (sample
  larger than the population, or negative), the \<open>ValueError\<close> raised by the breeder with
  the actual and the required length, the \<open>IndexError\<close> of \<open>sorted(...)[0]\<close> on an empty
  list, the \<open>TypeError\<close> of comparing an unset fitness, and the \<open>NameError\<close> of reading
  the module-level name \<open>hyperParams\<close> when it is not bound.
\<close>

datatype error =
    SampleValueError
  | LengthValueError nat int
  | IndexError
  | TypeError
  | NameError

section \<open>Numbers and the random source\<close>

text \<open>
  Python's \<open>round(v, n)\<close> rounds to \<open>n\<close> decimals, halves to the even neighbour;
  \<open>int(v)\<close> truncates towards zero.
\<close>

definition round_half_even :: "real \<Rightarrow> int" where
  "round_half_even v =
     (let f = \<lfloor>v\<rfloor>; d = v - of_int f
      in if d < 1 / 2 then f
         else if 1 / 2 < d then f + 1
         else if even f then f else f + 1)"

definition py_round :: "real \<Rightarrow> int \<Rightarrow> real" where
  "py_round v n =
     (if 0 \<le> n then of_int (round_half_even (v * 10 ^ nat n)) / 10 ^ nat n
      else of_int (round_half_even (v / 10 ^ nat (- n))) * 10 ^ nat (- n))"

definition py_int :: "real \<Rightarrow> int" where
  "py_int v = (if 0 \<le> v then \<lfloor>v\<rfloor> else \<lceil>v\<rceil>)"

text \<open>
  \<open>random.random()\<close> returns a float in the half-open interval from 0 to 1. The type
  \<open>unit_draw\<close> holds exactly these values, and the process-wide random source is the list
  of the draws still to come (a source that has run out keeps returning 0).
\<close>

typedef unit_draw = "{u :: real. 0 \<le> u \<and> u < 1}"
  by (rule exI [of _ 0]) simp

type_synonym rng = "unit_draw list"

fun random :: "rng \<Rightarrow> real \<times> rng" where
  "random [] = (0, [])"
| "random (u # us) = (Rep_unit_draw u, us)"

definition uniform :: "real \<Rightarrow> real \<Rightarrow> rng \<Rightarrow> real \<times> rng" where
  "uniform a b r = (let (u, r1) = random r in (a + (b - a) * u, r1))"

section \<open>The mutator\<close>

text \<open>
  \<open>__mutate\<close>: the loop over the children, with the set \<open>mutatedChildren\<close> as an
  accumulator. The counter of mutated children is only logged and is left out.
\<close>

fun mutate_loop :: "Formula list \<Rightarrow> HyperParams \<Rightarrow> Formula set \<Rightarrow> rng \<Rightarrow> Formula set \<times> rng" where
  "mutate_loop [] hp mutatedChildren r = (mutatedChildren, r)"
| "mutate_loop (child # rest) hp mutatedChildren r =
     (let (u1, r1) = random r
      in if u1 < mutProb hp then
           (let (u2, r2) = random r1;
                direction = py_round (u2 - 0.5) 0;
                (u3, r3) = random r2
            in if u3 < 0.5
               then mutate_loop rest hp
                      (insert \<lparr>m = m child + mutVal hp * direction, c = c child, fitness = None\<rparr>
                         mutatedChildren) r3
               else mutate_loop rest hp
                      (insert \<lparr>m = m child, c = c child + mutVal hp * direction, fitness = None\<rparr>
                         mutatedChildren) r3)
         else mutate_loop rest hp
                (insert \<lparr>m = m child, c = c child, fitness = None\<rparr> mutatedChildren) r1)"

definition mutate :: "Formula list \<Rightarrow> HyperParams \<Rightarrow> rng \<Rightarrow> Formula set \<times> rng" where
  "mutate children hp r = mutate_loop children hp {} r"

section \<open>Sampling, creation, scoring, selection\<close>

text \<open>
  \<open>random.sample(population, k)\<close> raises \<open>ValueError\<close> unless \<open>k\<close> lies between 0 and
  the length of the population, and otherwise returns \<open>k\<close> members chosen without
  replacement: each step draws a position among the members still available and takes
  that member out.
\<close>

fun draw_sample :: "nat \<Rightarrow> 'a list \<Rightarrow> rng \<Rightarrow> 'a list \<times> rng" where
  "draw_sample 0 pool r = ([], r)"
| "draw_sample (Suc k) pool r =
     (let (u, r1) = random r;
          j = nat \<lfloor>u * real (length pool)\<rfloor>;
          (rest, r2) = draw_sample k (take j pool @ drop (Suc j) pool) r1
      in (pool ! j # rest, r2))"

definition sample :: "'a list \<Rightarrow> int \<Rightarrow> rng \<Rightarrow> error + ('a list \<times> rng)" where
  "sample population k r =
     (if k < 0 \<or> int (length population) < k then Inl SampleValueError
      else Inr (draw_sample (nat k) population r))"

text \<open>\<open>__createPopulation\<close>: \<open>range(popSize)\<close> is empty for a negative \<open>popSize\<close>.\<close>

fun createPopulation_loop :: "nat \<Rightarrow> MCRange \<Rightarrow> int \<Rightarrow> rng \<Rightarrow> Formula list \<times> rng" where
  "createPopulation_loop 0 mcr dp r = ([], r)"
| "createPopulation_loop (Suc n) mcr dp r =
     (let (a, r1) = uniform (of_int (minM mcr)) (of_int (maxM mcr)) r;
          (b, r2) = uniform (of_int (minC mcr)) (of_int (maxC mcr)) r1;
          (rest, r3) = createPopulation_loop n mcr dp r2
      in (\<lparr>m = py_round a dp, c = py_round b dp, fitness = None\<rparr> # rest, r3))"

definition createPopulation :: "MCRange \<Rightarrow> int \<Rightarrow> int \<Rightarrow> rng \<Rightarrow> Formula list \<times> rng" where
  "createPopulation mcr dp number r = createPopulation_loop (nat number) mcr dp r"

text \<open>
  \<open>__best\<close>: \<open>sorted(population, key=fitness)[0]\<close>. Indexing the empty list raises
  \<open>IndexError\<close>; sorting two or more members of which one has no fitness compares
  \<open>None\<close> and raises \<open>TypeError\<close>; the sort is stable, so the first member of least
  fitness is returned.
\<close>

definition best :: "Formula list \<Rightarrow> error + Formula" where
  "best population =
     (if population = [] then Inl IndexError
      else if 2 \<le> length population \<and> list_ex (\<lambda>ind. fitness ind = None) population
        then Inl TypeError
      else Inr (hd (sort_key (\<lambda>ind. the (fitness ind)) population)))"

text \<open>
  \<open>__score\<close> has the parameters \<open>candidate\<close> and \<open>data\<close> only: the name \<open>hyperParams\<close>
  in its body is the module-level variable, here the argument \<open>glob\<close> (\<open>None\<close> when the
  name is not bound, as in a program that imports the module). The name is looked up
  once per data point, so never for an empty dataset.
\<close>

definition score :: "HyperParams option \<Rightarrow> Formula \<Rightarrow> DataPoint list \<Rightarrow> error + real" where
  "score glob candidate data =
     (if data = [] then Inr 0
      else case glob of
             None \<Rightarrow> Inl NameError
           | Some ghp \<Rightarrow>
               Inr (sum_list (map (\<lambda>datapoint.
                      \<bar>py_round (y datapoint - (m candidate * x datapoint + c candidate)) (dps ghp)\<bar>)
                    data)))"

text \<open>
  \<open>__scorePopulation\<close>: \<open>candidate.fitness or __score(candidate, data)\<close> keeps a fitness
  that is set and not zero, and scores otherwise. The parameter \<open>hyperParams\<close> is not used
  by the body.
\<close>

definition fitness_or_score :: "HyperParams option \<Rightarrow> Formula \<Rightarrow> DataPoint list \<Rightarrow> error + real" where
  "fitness_or_score glob candidate data =
     (case fitness candidate of
        None \<Rightarrow> score glob candidate data
      | Some f \<Rightarrow> if f \<noteq> 0 then Inr f else score glob candidate data)"

fun scorePopulation ::
  "HyperParams option \<Rightarrow> Formula list \<Rightarrow> DataPoint list \<Rightarrow> HyperParams \<Rightarrow> error + Formula list" where
  "scorePopulation glob [] data hp = Inr []"
| "scorePopulation glob (candidate # rest) data hp =
     (case fitness_or_score glob candidate data of
        Inl e \<Rightarrow> Inl e
      | Inr f \<Rightarrow>
          (case scorePopulation glob rest data hp of
             Inl e \<Rightarrow> Inl e
           | Inr scored \<Rightarrow> Inr (\<lparr>m = m candidate, c = c candidate, fitness = Some f\<rparr> # scored)))"

text \<open>
  \<open>__selectPopulation\<close>: \<open>int(round(popSize * goldenSize, 0))\<close> tournaments, each the best
  of a sample of \<open>int(round(popSize * tournamentSize, 0))\<close> members.
\<close>

fun tournaments :: "nat \<Rightarrow> Formula list \<Rightarrow> int \<Rightarrow> rng \<Rightarrow> error + (Formula list \<times> rng)" where
  "tournaments 0 population k r = Inr ([], r)"
| "tournaments (Suc n) population k r =
     (case sample population k r of
        Inl e \<Rightarrow> Inl e
      | Inr (drawn, r1) \<Rightarrow>
          (case best drawn of
             Inl e \<Rightarrow> Inl e
           | Inr winner \<Rightarrow>
               (case tournaments n population k r1 of
                  Inl e \<Rightarrow> Inl e
                | Inr (winners, r2) \<Rightarrow> Inr (winner # winners, r2))))"

definition selectPopulation :: "Formula list \<Rightarrow> HyperParams \<Rightarrow> rng \<Rightarrow> error + (Formula list \<times> rng)" where
  "selectPopulation population hp r =
     tournaments (nat (round_half_even (of_int (popSize hp) * goldenSize hp))) population
       (round_half_even (of_int (popSize hp) * tournamentSize hp)) r"

section \<open>The breeder\<close>

text \<open>
  \<open>__potentialChildren\<close>: the set of the swapped pairs of \<open>itertools.product(ms, cs)\<close>
  together with the pairs themselves, each made a formula without fitness. The order in
  which Python lists a set is not specified; here it is the order of \<open>remdups\<close>.
\<close>

definition potentialChildren :: "Formula list \<Rightarrow> Formula list" where
  "potentialChildren population =
     (let ms = map m population;
          cs = map c population;
          potentials = remdups (map (\<lambda>cand. (snd cand, fst cand)) (List.product ms cs)
                                  @ List.product ms cs)
      in map (\<lambda>pot. \<lparr>m = fst pot, c = snd pot, fitness = None\<rparr>) potentials)"

text \<open>
  The number of children asked of \<open>random.sample\<close>:
  \<open>int(min(len(pool), popSize * (1 - immigrationSize) - len(population)))\<close>.
\<close>

definition childCount :: "Formula list \<Rightarrow> Formula list \<Rightarrow> HyperParams \<Rightarrow> int" where
  "childCount pool population hp =
     (let target = of_int (popSize hp) * (1 - immigrationSize hp) - real (length population)
      in if real (length pool) \<le> target then int (length pool) else py_int target)"

text \<open>
  \<open>__breedPopulation\<close>. The mutator is called and its result bound to
  \<open>mutatedChildren\<close>; the list appended to the population is \<open>children\<close>.
\<close>

definition breedPopulation :: "Formula list \<Rightarrow> HyperParams \<Rightarrow> rng \<Rightarrow> error + (Formula list \<times> rng)" where
  "breedPopulation population hp r =
     (let pool = potentialChildren population
      in case sample pool (childCount pool population hp) r of
           Inl e \<Rightarrow> Inl e
         | Inr (children, r1) \<Rightarrow>
             (let (mutatedChildren, r2) = mutate children hp r1;
                  immigrants = popSize hp - int (length children + length population);
                  (fresh, r3) = createPopulation (mcrange hp) (dps hp) immigrants r2;
                  population' = population @ children @ fresh
              in if int (length population') \<noteq> popSize hp
                 then Inl (LengthValueError (length population') (popSize hp))
                 else Inr (population', r3)))"

text \<open>
  The same body with the call of \<open>__mutate\<close> as a parameter, to state what the breeder
  does with the mutator's result; \<open>breedPopulation\<close> is this function at \<open>mutate\<close>.
\<close>

definition breedPopulation_with ::
  "(Formula list \<Rightarrow> HyperParams \<Rightarrow> rng \<Rightarrow> Formula set \<times> rng)
     \<Rightarrow> Formula list \<Rightarrow> HyperParams \<Rightarrow> rng \<Rightarrow> error + (Formula list \<times> rng)" where
  "breedPopulation_with mutator population hp r =
     (let pool = potentialChildren population
      in case sample pool (childCount pool population hp) r of
           Inl e \<Rightarrow> Inl e
         | Inr (children, r1) \<Rightarrow>
             (let (mutatedChildren, r2) = mutator children hp r1;
                  immigrants = popSize hp - int (length children + length population);
                  (fresh, r3) = createPopulation (mcrange hp) (dps hp) immigrants r2;
                  population' = population @ children @ fresh
              in if int (length population') \<noteq> popSize hp
                 then Inl (LengthValueError (length population') (popSize hp))
                 else Inr (population', r3)))"

section \<open>The evolution loop\<close>

text \<open>
  \<open>evolve\<close>: the loop \<open>for i in range(cycles)\<close> with \<open>n\<close> iterations still to run; after
  the loop the best of the base population is returned with \<open>cycles\<close>.
\<close>

fun evolve_loop ::
  "HyperParams option \<Rightarrow> DataPoint list \<Rightarrow> HyperParams \<Rightarrow> nat \<Rightarrow> int \<Rightarrow> Formula list \<Rightarrow> rng
     \<Rightarrow> error + (Formula \<times> int)" where
  "evolve_loop glob data hp 0 i basePopulation r =
     (case best basePopulation of
        Inl e \<Rightarrow> Inl e
      | Inr b \<Rightarrow> Inr (b, cycles hp))"
| "evolve_loop glob data hp (Suc n) i basePopulation r =
     (case scorePopulation glob basePopulation data hp of
        Inl e \<Rightarrow> Inl e
      | Inr fitPopulation \<Rightarrow>
          (case best fitPopulation of
             Inl e \<Rightarrow> Inl e
           | Inr b \<Rightarrow>
               if fitness b = Some 0 then Inr (b, i + 1)
               else
                 (case selectPopulation fitPopulation hp r of
                    Inl e \<Rightarrow> Inl e
                  | Inr (bestPopulation, r1) \<Rightarrow>
                      if i + 1 < cycles hp then
                        (case breedPopulation bestPopulation hp r1 of
                           Inl e \<Rightarrow> Inl e
                         | Inr (bred, r2) \<Rightarrow> evolve_loop glob data hp n (i + 1) bred r2)
                      else evolve_loop glob data hp n (i + 1) bestPopulation r1)))"

definition evolve ::
  "HyperParams option \<Rightarrow> DataPoint list \<Rightarrow> HyperParams \<Rightarrow> rng \<Rightarrow> error + (Formula \<times> int)" where
  "evolve glob data hp r =
     (let (basePopulation, r0) = createPopulation (mcrange hp) (dps hp) (popSize hp) r
      in evolve_loop glob data hp (nat (cycles hp)) 0 basePopulation r0)"

text \<open>
  The populations the loop goes through. \<open>next_generation\<close> is one iteration that does
  not return and is not the last: score, best (not of fitness 0), select, breed.
  \<open>generation j\<close> is the base population at the start of iteration \<open>j\<close>, counted from
  the given population; it exists when every earlier iteration went through without an
  error and without a best candidate of fitness 0.
\<close>

definition next_generation ::
  "HyperParams option \<Rightarrow> DataPoint list \<Rightarrow> HyperParams \<Rightarrow> Formula list \<Rightarrow> rng
     \<Rightarrow> (Formula list \<times> rng) option" where
  "next_generation glob data hp basePopulation r =
     (case scorePopulation glob basePopulation data hp of
        Inl e \<Rightarrow> None
      | Inr fitPopulation \<Rightarrow>
          (case best fitPopulation of
             Inl e \<Rightarrow> None
           | Inr b \<Rightarrow>
               if fitness b = Some 0 then None
               else
                 (case selectPopulation fitPopulation hp r of
                    Inl e \<Rightarrow> None
                  | Inr (bestPopulation, r1) \<Rightarrow>
                      (case breedPopulation bestPopulation hp r1 of
                         Inl e \<Rightarrow> None
                       | Inr (bred, r2) \<Rightarrow> Some (bred, r2)))))"

fun generation ::
  "HyperParams option \<Rightarrow> DataPoint list \<Rightarrow> HyperParams \<Rightarrow> nat \<Rightarrow> Formula list \<Rightarrow> rng
     \<Rightarrow> (Formula list \<times> rng) option" where
  "generation glob data hp 0 basePopulation r = Some (basePopulation, r)"
| "generation glob data hp (Suc j) basePopulation r =
     (case next_generation glob data hp basePopulation r of
        None \<Rightarrow> None
      | Some (bred, r2) \<Rightarrow> generation glob data hp j bred r2)"

text \<open>
  What \<open>evolve\<close> returns from the iteration that starts with \<open>basePopulation\<close>: the best
  of the scored population when its fitness is 0; otherwise, in the last iteration only,
  the best of the population that selection drew from the scored one.
\<close>

definition outcome ::
  "HyperParams option \<Rightarrow> DataPoint list \<Rightarrow> HyperParams \<Rightarrow> Formula list \<Rightarrow> rng
     \<Rightarrow> Formula \<Rightarrow> int \<Rightarrow> bool" where
  "outcome glob data hp basePopulation r b k =
     (case scorePopulation glob basePopulation data hp of
        Inl e \<Rightarrow> False
      | Inr fitPopulation \<Rightarrow>
          (case best fitPopulation of
             Inl e \<Rightarrow> False
           | Inr b0 \<Rightarrow>
               if fitness b0 = Some 0 then b = b0
               else k = cycles hp
                  \<and> (case selectPopulation fitPopulation hp r of
                        Inl e \<Rightarrow> False
                      | Inr (bestPopulation, r1) \<Rightarrow> best bestPopulation = Inr b)))"

section \<open>The default hyperparameters\<close>

text \<open>
  The bundle that \<open>__parseArgs\<close> builds when no option is given; the concrete inputs
  below are updates of it.
\<close>

definition defaults :: HyperParams where
  "defaults =
     \<lparr>cycles = 1000, mcrange = \<lparr>minM = 0, maxM = 100, minC = 0, maxC = 100\<rparr>, popSize = 100,
      mutProb = 1 / 100, mutVal = 5 / 100, dps = 1, tournamentSize = 8 / 100,
      goldenSize = 4 / 10, immigrationSize = 2 / 10\<rparr>"

text \<open>The hyperparameters, elites and draws of the concrete runs below.\<close>

definition draws :: "real list \<Rightarrow> rng" where
  "draws us = map Abs_unit_draw us"

definition params_one_cycle :: HyperParams where
  "params_one_cycle =
     defaults\<lparr>cycles := 1, popSize := 2, tournamentSize := 1 / 2, goldenSize := 1 / 2\<rparr>"

definition params_two_cycles :: HyperParams where
  "params_two_cycles = params_one_cycle\<lparr>cycles := 2\<rparr>"

definition params_single :: HyperParams where
  "params_single =
     defaults\<lparr>cycles := 1, popSize := 1, tournamentSize := 4 / 10, goldenSize := 1\<rparr>"

definition params_four :: HyperParams where
  "params_four = defaults\<lparr>popSize := 4, immigrationSize := 1 / 4\<rparr>"

definition params_certain_mutation :: HyperParams where
  "params_certain_mutation = params_four\<lparr>mutProb := 1, mutVal := 5\<rparr>"

definition params_all_golden :: HyperParams where
  "params_all_golden = defaults\<lparr>popSize := 3, goldenSize := 1, immigrationSize := 1 / 2\<rparr>"

definition params_ten :: HyperParams where
  "params_ten = defaults\<lparr>popSize := 10, goldenSize := 3 / 10, immigrationSize := 1 / 4\<rparr>"

definition one_point :: "DataPoint list" where
  "one_point = [\<lparr>x = 1, y = 0\<rparr>]"

definition elite_one :: "Formula list" where
  "elite_one = [\<lparr>m = 1, c = 2, fitness = Some 3\<rparr>]"

definition elite_three :: "Formula list" where
  "elite_three =
     [\<lparr>m = 1, c = 2, fitness = Some 3\<rparr>, \<lparr>m = 3, c = 4, fitness = Some 3\<rparr>,
      \<lparr>m = 5, c = 6, fitness = Some 3\<rparr>]"

section \<open>Properties\<close>

lemmas run_simps = defaults_def draws_def params_one_cycle_def params_two_cycles_def
  params_single_def params_four_def params_certain_mutation_def params_all_golden_def
  params_ten_def one_point_def elite_one_def elite_three_def Abs_unit_draw_inverse py_round_def round_half_even_def py_int_def
  uniform_def createPopulation_def score_def fitness_or_score_def best_def sample_def
  selectPopulation_def potentialChildren_def childCount_def breedPopulation_def evolve_def
  mutate_def numeral_2_eq_2 numeral_3_eq_3 Let_def

lemma random_range: "0 \<le> fst (random r) \<and> fst (random r) < 1"
proof (cases r)
  case Nil
  then show ?thesis by simp
next
  case (Cons u us)
  then show ?thesis using Rep_unit_draw [of u] by simp
qed

lemma direction_zero:
  assumes "0 \<le> u" and "u < 1"
  shows "py_round (u - 1 / 2) 0 = 0"
proof (cases "u < 1 / 2")
  case True
  then have "\<lfloor>u - 1 / 2\<rfloor> = - 1" using assms by linarith
  then show ?thesis using True assms
    by (simp add: py_round_def round_half_even_def Let_def)
next
  case False
  then have "\<lfloor>u - 1 / 2\<rfloor> = 0" using assms by linarith
  then show ?thesis using False assms
    by (simp add: py_round_def round_half_even_def Let_def)
qed

lemma mutate_loop_fst:
  "fst (mutate_loop children hp acc r) =
     acc \<union> (\<lambda>child. \<lparr>m = m child, c = c child, fitness = None\<rparr>) ` set children"
proof (induction children arbitrary: acc r)
  case Nil
  then show ?case by simp
next
  case (Cons child rest)
  obtain u1 r1 where d1: "random r = (u1, r1)" by (cases "random r")
  obtain u2 r2 where d2: "random r1 = (u2, r2)" by (cases "random r1")
  obtain u3 r3 where d3: "random r2 = (u3, r3)" by (cases "random r2")
  have "0 \<le> u2 \<and> u2 < 1" using random_range [of r1] d2 by simp
  then have dir: "py_round (u2 - 1 / 2) 0 = 0" by (simp add: direction_zero)
  show ?case
    by (simp add: d1 d2 d3 dir Cons.IH Let_def)
qed

lemma randbelow_less:
  assumes "0 < n"
  shows "nat \<lfloor>fst (random r) * real n\<rfloor> < n"
proof -
  have "0 \<le> fst (random r)" and "fst (random r) < 1" using random_range [of r] by simp_all
  then have "fst (random r) * real n < real n" using assms by simp
  then have "\<lfloor>fst (random r) * real n\<rfloor> < int n" by linarith
  then show ?thesis using assms by linarith
qed

lemma length_draw_sample: "length (fst (draw_sample k pool r)) = k"
  by (induction k arbitrary: pool r) (simp_all add: Let_def case_prod_beta)

lemma mset_remove_nth:
  "j < length pool \<Longrightarrow> mset pool = add_mset (pool ! j) (mset (take j pool @ drop (Suc j) pool))"
proof -
  assume "j < length pool"
  then have "pool = take j pool @ pool ! j # drop (Suc j) pool" by (rule id_take_nth_drop)
  then have "mset pool = mset (take j pool @ pool ! j # drop (Suc j) pool)" by simp
  then show ?thesis by simp
qed

lemma mset_draw_sample:
  "k \<le> length pool \<Longrightarrow> mset (fst (draw_sample k pool r)) \<subseteq># mset pool"
proof (induction k arbitrary: pool r)
  case 0
  then show ?case by simp
next
  case (Suc k)
  define j where "j = nat \<lfloor>fst (random r) * real (length pool)\<rfloor>"
  define pool' where "pool' = take j pool @ drop (Suc j) pool"
  have jlt: "j < length pool" unfolding j_def using Suc.prems by (intro randbelow_less) auto
  then have len: "length pool' = length pool - 1" by (simp add: pool'_def)
  have "k \<le> length pool'" using Suc.prems len by simp
  then have IH: "mset (fst (draw_sample k pool' (snd (random r)))) \<subseteq># mset pool'"
    by (rule Suc.IH)
  have split: "mset pool = add_mset (pool ! j) (mset pool')"
    unfolding pool'_def using jlt by (rule mset_remove_nth)
  have "fst (draw_sample (Suc k) pool r) = pool ! j # fst (draw_sample k pool' (snd (random r)))"
    by (simp add: Let_def case_prod_beta j_def pool'_def)
  then show ?case using IH split by simp
qed

lemma distinct_draw_sample:
  assumes "k \<le> length pool" and "distinct pool"
  shows "distinct (fst (draw_sample k pool r))"
proof -
  have "mset (fst (draw_sample k pool r)) \<subseteq># mset pool" using assms(1) by (rule mset_draw_sample)
  then obtain rest where "mset pool = mset (fst (draw_sample k pool r)) + rest"
    by (auto simp add: mset_subset_eq_exists_conv)
  moreover obtain zs where "mset zs = rest" using ex_mset by blast
  ultimately have "mset pool = mset (fst (draw_sample k pool r) @ zs)" by simp
  then have "distinct (fst (draw_sample k pool r) @ zs)"
    using assms(2) mset_eq_imp_distinct_iff by blast
  then show ?thesis by simp
qed

lemma set_draw_sample:
  assumes "k \<le> length pool"
  shows "set (fst (draw_sample k pool r)) \<subseteq> set pool"
proof -
  have "mset (fst (draw_sample k pool r)) \<subseteq># mset pool" using assms by (rule mset_draw_sample)
  then have "set_mset (mset (fst (draw_sample k pool r))) \<subseteq> set_mset (mset pool)"
    by (rule set_mset_mono)
  then show ?thesis by simp
qed

lemma sample_Inr:
  assumes "sample population k r = Inr (drawn, r1)"
  shows "0 \<le> k" and "k \<le> int (length population)" and "length drawn = nat k"
    and "mset drawn \<subseteq># mset population" and "drawn = fst (draw_sample (nat k) population r)"
proof -
  show k0: "0 \<le> k" and kn: "k \<le> int (length population)"
    using assms by (simp_all add: sample_def split: if_splits)
  show eq: "drawn = fst (draw_sample (nat k) population r)"
    using assms by (auto simp add: sample_def split: if_splits)
  show "length drawn = nat k" by (simp add: eq length_draw_sample)
  have "nat k \<le> length population" using k0 kn by simp
  then show "mset drawn \<subseteq># mset population" unfolding eq by (rule mset_draw_sample)
qed

lemma sample_negative: "k < 0 \<Longrightarrow> sample population k r = Inl SampleValueError"
  by (simp add: sample_def)

lemma length_createPopulation_loop: "length (fst (createPopulation_loop n mcr dp r)) = n"
  by (induction n arbitrary: r) (simp_all add: Let_def case_prod_beta)

lemma length_createPopulation: "length (fst (createPopulation mcr dp number r)) = nat number"
  by (simp add: createPopulation_def length_createPopulation_loop)

lemma fitness_createPopulation_loop:
  "cand \<in> set (fst (createPopulation_loop n mcr dp r)) \<Longrightarrow> fitness cand = None"
  by (induction n arbitrary: r) (auto simp add: Let_def case_prod_beta)

lemma fitness_potentialChildren:
  "child \<in> set (potentialChildren population) \<Longrightarrow> fitness child = None"
  by (auto simp add: potentialChildren_def Let_def)

lemma distinct_potentialChildren: "distinct (potentialChildren population)"
proof -
  have "inj (\<lambda>pot :: real \<times> real. \<lparr>m = fst pot, c = snd pot, fitness = None\<rparr>)"
    by (rule injI) (simp add: prod_eq_iff)
  then have "inj_on (\<lambda>pot :: real \<times> real. \<lparr>m = fst pot, c = snd pot, fitness = None\<rparr>) A" for A
    by (rule inj_on_subset) simp
  then show ?thesis
    by (simp add: potentialChildren_def Let_def distinct_map)
qed


lemma breedPopulation_Inr:
  assumes "breedPopulation population hp r = Inr (gen, r')"
  shows "\<exists>children r1.
           sample (potentialChildren population)
             (childCount (potentialChildren population) population hp) r = Inr (children, r1)
         \<and> gen = population @ children
                  @ fst (createPopulation (mcrange hp) (dps hp)
                          (popSize hp - int (length children + length population))
                          (snd (mutate children hp r1)))
         \<and> int (length gen) = popSize hp"
  using assms
  by (auto simp add: breedPopulation_def Let_def case_prod_beta split: sum.splits if_splits)

lemma childCount_py_int:
  "childCount pool population hp =
     py_int (min (real (length pool))
               (of_int (popSize hp) * (1 - immigrationSize hp) - real (length population)))"
  by (simp add: childCount_def py_int_def Let_def min_def)

lemma breedPopulation_negative:
  "childCount (potentialChildren population) population hp < 0 \<Longrightarrow>
     breedPopulation population hp r = Inl SampleValueError"
  by (simp add: breedPopulation_def Let_def sample_negative)

lemma best_empty: "best [] = Inl IndexError"
  by (simp add: best_def)

lemma best_Inr_mem:
  assumes "best population = Inr b"
  shows "b \<in> set population"
proof -
  let ?sorted = "sort_key (\<lambda>ind. the (fitness ind)) population"
  have ne: "population \<noteq> []" and b: "b = hd ?sorted"
    using assms by (auto simp add: best_def split: if_splits)
  have "?sorted \<noteq> []" using ne by (metis length_sort length_0_conv)
  then have "hd ?sorted \<in> set ?sorted" by (rule hd_in_set)
  then show ?thesis using b by simp
qed

lemma best_Inr_least:
  assumes "best population = Inr b" and "a \<in> set population"
  shows "the (fitness b) \<le> the (fitness a)"
proof -
  let ?key = "\<lambda>ind. the (fitness ind)"
  let ?sorted = "sort_key ?key population"
  have b: "b = hd ?sorted"
    using assms(1) by (auto simp add: best_def split: if_splits)
  have mem: "a \<in> set ?sorted" using assms(2) by simp
  then obtain first others where shape: "?sorted = first # others" by (cases ?sorted) auto
  have "sorted (map ?key ?sorted)" by (rule sorted_sort_key)
  then have "\<forall>z \<in> set others. ?key first \<le> ?key z" by (simp add: shape)
  moreover have "a = first \<or> a \<in> set others" using mem by (simp add: shape)
  ultimately have "?key first \<le> ?key a" by auto
  then show ?thesis using b by (simp add: shape)
qed

lemma best_scored:
  assumes "population \<noteq> []" and "\<forall>a \<in> set population. fitness a \<noteq> None"
  shows "\<exists>b. best population = Inr b"
  using assms by (simp add: best_def list_ex_iff)

lemma tournaments_empty_sample:
  "0 < n \<Longrightarrow> tournaments n population 0 r = Inl IndexError"
  by (cases n) (simp_all add: sample_def best_def)

lemma tournaments_scored:
  assumes "1 \<le> k" and "k \<le> int (length population)"
    and "\<forall>a \<in> set population. fitness a \<noteq> None"
  shows "\<exists>winners r'. tournaments n population k r = Inr (winners, r')
           \<and> length winners = n
           \<and> (\<forall>w \<in> set winners. \<exists>drawn. length drawn = nat k
                  \<and> mset drawn \<subseteq># mset population \<and> best drawn = Inr w)"
proof (induction n arbitrary: r)
  case 0
  then show ?case by simp
next
  case (Suc n)
  obtain drawn r1 where smp: "sample population k r = Inr (drawn, r1)"
    using assms(1,2) by (cases "draw_sample (nat k) population r") (simp add: sample_def)
  have len: "length drawn = nat k" using smp by (rule sample_Inr(3))
  have sub: "mset drawn \<subseteq># mset population" using smp by (rule sample_Inr(4))
  then have "set_mset (mset drawn) \<subseteq> set_mset (mset population)" by (rule set_mset_mono)
  then have scored: "\<forall>a \<in> set drawn. fitness a \<noteq> None" using assms(3) by auto
  have "drawn \<noteq> []" using len assms(1) by auto
  then obtain w where w: "best drawn = Inr w" using scored best_scored by blast
  obtain winners r2 where
    rest: "tournaments n population k r1 = Inr (winners, r2)" and
    lenw: "length winners = n" and
    each: "\<forall>v \<in> set winners. \<exists>drawn. length drawn = nat k
              \<and> mset drawn \<subseteq># mset population \<and> best drawn = Inr v"
    using Suc.IH by blast
  have "tournaments (Suc n) population k r = Inr (w # winners, r2)"
    by (simp add: smp w rest)
  moreover have "length (w # winners) = Suc n" by (simp add: lenw)
  moreover have "\<forall>v \<in> set (w # winners). \<exists>drawn. length drawn = nat k
              \<and> mset drawn \<subseteq># mset population \<and> best drawn = Inr v"
    using each len sub w by auto
  ultimately show ?case by blast
qed

lemma scorePopulation_no_data:
  "\<forall>a \<in> set population. fitness a = None \<Longrightarrow>
     scorePopulation glob population [] hp
       = Inr (map (\<lambda>a. \<lparr>m = m a, c = c a, fitness = Some 0\<rparr>) population)"
  by (induction population) (simp_all add: fitness_or_score_def score_def)

lemma best_all_zero:
  assumes "population \<noteq> []" and "\<forall>a \<in> set population. fitness a = Some 0"
  shows "best population = Inr (hd population)"
proof -
  have "map (\<lambda>ind. the (fitness ind)) population = replicate (length population) 0"
    using assms(2) by (simp add: map_replicate_const [symmetric] cong: map_cong)
  then have "sorted (map (\<lambda>ind. the (fitness ind)) population)" by simp
  then have "sort_key (\<lambda>ind. the (fitness ind)) population = population"
    by (rule sort_key_id_if_sorted)
  moreover have "\<not> list_ex (\<lambda>ind. fitness ind = None) population"
    using assms(2) by (simp add: list_ex_iff)
  ultimately show ?thesis using assms(1) by (simp add: best_def)
qed

lemma evolve_loop_result:
  "evolve_loop glob data hp n i basePopulation r = Inr (b, k) \<Longrightarrow>
   i + int n = cycles hp \<Longrightarrow> 0 < n \<Longrightarrow>
     i < k \<and> k \<le> cycles hp
     \<and> (\<exists>lastPopulation r1.
           generation glob data hp (nat (k - 1 - i)) basePopulation r = Some (lastPopulation, r1)
         \<and> outcome glob data hp lastPopulation r1 b k)"
proof (induction n arbitrary: i basePopulation r)
  case 0
  then show ?case by simp
next
  case (Suc n)
  from Suc.prems(1) obtain fitPopulation where
    sc: "scorePopulation glob basePopulation data hp = Inr fitPopulation"
    by (cases "scorePopulation glob basePopulation data hp") simp_all
  from Suc.prems(1) sc obtain b0 where b0: "best fitPopulation = Inr b0"
    by (cases "best fitPopulation") simp_all
  show ?case
  proof (cases "fitness b0 = Some 0")
    case True
    then have "b = b0" and "k = i + 1" using Suc.prems(1) sc b0 by simp_all
    moreover have "outcome glob data hp basePopulation r b0 (i + 1)"
      unfolding outcome_def using sc b0 True by simp
    ultimately show ?thesis using Suc.prems(2) by simp
  next
    case False
    from Suc.prems(1) sc b0 False obtain bestPopulation r1 where
      sel: "selectPopulation fitPopulation hp r = Inr (bestPopulation, r1)"
      by (cases "selectPopulation fitPopulation hp r") auto
    show ?thesis
    proof (cases "i + 1 < cycles hp")
      case True
      from Suc.prems(1) sc b0 False sel True obtain bred r2 where
        br: "breedPopulation bestPopulation hp r1 = Inr (bred, r2)"
        by (cases "breedPopulation bestPopulation hp r1") auto
      have rec: "evolve_loop glob data hp n (i + 1) bred r2 = Inr (b, k)"
        using Suc.prems(1) sc b0 False sel True br by simp
      have "i + 1 + int n = cycles hp" and "0 < n" using Suc.prems(2) True by simp_all
      with rec have IH: "i + 1 < k \<and> k \<le> cycles hp
         \<and> (\<exists>lastPopulation r3.
               generation glob data hp (nat (k - 1 - (i + 1))) bred r2 = Some (lastPopulation, r3)
             \<and> outcome glob data hp lastPopulation r3 b k)"
        by (rule Suc.IH)
      have step: "next_generation glob data hp basePopulation r = Some (bred, r2)"
        by (simp add: next_generation_def sc b0 False sel br)
      have "i + 1 < k" using IH by blast
      then have "nat (k - 1 - i) = Suc (nat (k - 1 - (i + 1)))" by linarith
      then have "generation glob data hp (nat (k - 1 - i)) basePopulation r
                   = generation glob data hp (nat (k - 1 - (i + 1))) bred r2"
        by (simp add: step)
      then show ?thesis using IH by auto
    next
      case last: False
      then have n0: "n = 0" using Suc.prems(2) by simp
      have rec: "evolve_loop glob data hp 0 (i + 1) bestPopulation r1 = Inr (b, k)"
        using Suc.prems(1) sc b0 False sel last n0 by simp
      then obtain k: "k = cycles hp" and b: "best bestPopulation = Inr b"
        by (cases "best bestPopulation") simp_all
      have "outcome glob data hp basePopulation r b k"
        unfolding outcome_def using sc b0 False sel b k by simp
      moreover have "k = i + 1" using k Suc.prems(2) n0 by simp
      ultimately show ?thesis using k by simp
    qed
  qed
qed

subsection \<open>The children of a bred generation\<close>

text \<open>
  C1: the children that enter the generation the breeder returns are the sampled
  children themselves, not the candidates produced by the mutator. The set the mutator
  returns is never read: whatever set stands in its place (only the draws the mutator
  consumes matter), the breeder returns the same. In the run below the generation holds
  the two sampled children as \<open>random.sample\<close> returned them.
\<close>

theorem breedPopulation_ignores_mutator:
  "breedPopulation_with mutate population hp r = breedPopulation population hp r
   \<and> breedPopulation_with
         (\<lambda>children hp r1. (produced children hp r1, snd (mutate children hp r1)))
         population hp r
       = breedPopulation population hp r
   \<and> sample (potentialChildren elite_one)
         (childCount (potentialChildren elite_one) elite_one params_certain_mutation)
         (draws [6 / 10, 1 / 10, 1 / 2, 9 / 10, 3 / 10, 1 / 2, 1 / 10, 7 / 10, 1 / 10, 2 / 10])
       = Inr ([\<lparr>m = 1, c = 2, fitness = None\<rparr>, \<lparr>m = 2, c = 1, fitness = None\<rparr>],
              draws [1 / 2, 9 / 10, 3 / 10, 1 / 2, 1 / 10, 7 / 10, 1 / 10, 2 / 10])
   \<and> breedPopulation elite_one params_certain_mutation
         (draws [6 / 10, 1 / 10, 1 / 2, 9 / 10, 3 / 10, 1 / 2, 1 / 10, 7 / 10, 1 / 10, 2 / 10])
       = Inr ([\<lparr>m = 1, c = 2, fitness = Some 3\<rparr>, \<lparr>m = 1, c = 2, fitness = None\<rparr>,
               \<lparr>m = 2, c = 1, fitness = None\<rparr>, \<lparr>m = 10, c = 20, fitness = None\<rparr>], [])"
proof (intro conjI)
  show "breedPopulation_with mutate population hp r = breedPopulation population hp r"
    by (simp add: breedPopulation_with_def breedPopulation_def)
  show "breedPopulation_with
         (\<lambda>children hp r1. (produced children hp r1, snd (mutate children hp r1)))
         population hp r
       = breedPopulation population hp r"
    by (simp add: breedPopulation_with_def breedPopulation_def Let_def case_prod_beta
          split: sum.splits)
  show "sample (potentialChildren elite_one)
         (childCount (potentialChildren elite_one) elite_one params_certain_mutation)
         (draws [6 / 10, 1 / 10, 1 / 2, 9 / 10, 3 / 10, 1 / 2, 1 / 10, 7 / 10, 1 / 10, 2 / 10])
       = Inr ([\<lparr>m = 1, c = 2, fitness = None\<rparr>, \<lparr>m = 2, c = 1, fitness = None\<rparr>],
              draws [1 / 2, 9 / 10, 3 / 10, 1 / 2, 1 / 10, 7 / 10, 1 / 10, 2 / 10])"
    by (simp add: run_simps)
  show "breedPopulation elite_one params_certain_mutation
         (draws [6 / 10, 1 / 10, 1 / 2, 9 / 10, 3 / 10, 1 / 2, 1 / 10, 7 / 10, 1 / 10, 2 / 10])
       = Inr ([\<lparr>m = 1, c = 2, fitness = Some 3\<rparr>, \<lparr>m = 1, c = 2, fitness = None\<rparr>,
               \<lparr>m = 2, c = 1, fitness = None\<rparr>, \<lparr>m = 10, c = 20, fitness = None\<rparr>], [])"
    by (simp add: run_simps)
qed

subsection \<open>The pool of potential children\<close>

text \<open>
  C2: for the elite of \<open>(m = 1, c = 2)\<close> and \<open>(m = 3, c = 4)\<close> the pool is not the four
  pairs of an \<open>m\<close> of the elite with a \<open>c\<close> of the elite: it holds eight formulas, the
  four pairs and the four swapped pairs, in which a \<open>c\<close> of the elite stands as \<open>m\<close>
  and an \<open>m\<close> of the elite as \<open>c\<close>.
\<close>

theorem potentialChildren_swapped_pairs:
  "set (potentialChildren
          [\<lparr>m = 1, c = 2, fitness = Some 3\<rparr>, \<lparr>m = 3, c = 4, fitness = Some 5\<rparr>])
     = {\<lparr>m = 1, c = 2, fitness = None\<rparr>, \<lparr>m = 1, c = 4, fitness = None\<rparr>,
        \<lparr>m = 3, c = 2, fitness = None\<rparr>, \<lparr>m = 3, c = 4, fitness = None\<rparr>,
        \<lparr>m = 2, c = 1, fitness = None\<rparr>, \<lparr>m = 4, c = 1, fitness = None\<rparr>,
        \<lparr>m = 2, c = 3, fitness = None\<rparr>, \<lparr>m = 4, c = 3, fitness = None\<rparr>}
   \<and> length (potentialChildren
               [\<lparr>m = 1, c = 2, fitness = Some 3\<rparr>, \<lparr>m = 3, c = 4, fitness = Some 5\<rparr>]) = 8"
  by (auto simp add: potentialChildren_def)

subsection \<open>The magnitude of a mutation\<close>

text \<open>
  C3: with \<open>mutProb = 1.0\<close> and \<open>mutVal = 5\<close> the mutator does not move a child by 5 in
  \<open>m\<close> or in \<open>c\<close>: whatever the draws, the child \<open>(m = 1, c = 2)\<close> comes out as
  \<open>(m = 1, c = 2)\<close>.
\<close>

theorem mutate_certain_unchanged:
  "fst (mutate [\<lparr>m = 1, c = 2, fitness = None\<rparr>] (defaults\<lparr>mutProb := 1, mutVal := 5\<rparr>) r)
     = {\<lparr>m = 1, c = 2, fitness = None\<rparr>}"
  unfolding mutate_def mutate_loop_fst by simp

subsection \<open>The mutator changes no value\<close>

text \<open>
  C4: for every list of children, every hyperparameter bundle and every outcome of the
  random draws, the set returned by the mutator holds exactly the input children with
  \<open>m\<close> and \<open>c\<close> unchanged and the fitness unset: the direction
  \<open>round(random() - 0.5, 0)\<close> is zero for every draw, so the perturbation added is zero.
\<close>

theorem mutate_identity:
  "py_round (fst (random r0) - 0.5) 0 = 0
   \<and> fst (mutate children hp r) =
       (\<lambda>child. \<lparr>m = m child, c = c child, fitness = None\<rparr>) ` set children"
proof
  have "0 \<le> fst (random r0)" and "fst (random r0) < 1"
    using random_range [of r0] by simp_all
  then have "py_round (fst (random r0) - 1 / 2) 0 = 0" by (rule direction_zero)
  then show "py_round (fst (random r0) - 0.5) 0 = 0" by simp
  show "fst (mutate children hp r) =
       (\<lambda>child. \<lparr>m = m child, c = c child, fitness = None\<rparr>) ` set children"
    by (simp add: mutate_def mutate_loop_fst)
qed

theorem mutate_identity_witness:
  "py_round (fst (random (draws [99 / 100])) - 0.5) 0 = 0
   \<and> fst (mutate [\<lparr>m = 1, c = 2, fitness = Some 7\<rparr>, \<lparr>m = 3, c = 4, fitness = None\<rparr>]
         (defaults\<lparr>mutProb := 1 / 2, mutVal := 5\<rparr>)
         (draws [1 / 10, 9 / 10, 3 / 10, 7 / 10]))
     = {\<lparr>m = 1, c = 2, fitness = None\<rparr>, \<lparr>m = 3, c = 4, fitness = None\<rparr>}"
  using mutate_identity
    [of "draws [99 / 100]"
        "[\<lparr>m = 1, c = 2, fitness = Some 7\<rparr>, \<lparr>m = 3, c = 4, fitness = None\<rparr>]"
        "defaults\<lparr>mutProb := 1 / 2, mutVal := 5\<rparr>"
        "draws [1 / 10, 9 / 10, 3 / 10, 7 / 10]"]
  by simp

subsection \<open>An empty dataset\<close>

text \<open>
  C5, as the program behaves: \<open>evolve\<close> on an empty dataset raises nothing. With at
  least one cycle and a population of at least one member, every candidate scores 0, and
  the first candidate of the initial population is returned with fitness 0 after 1
  cycle.
\<close>

theorem evolve_no_data:
  "1 \<le> popSize hp \<Longrightarrow> 1 \<le> cycles hp \<Longrightarrow>
     evolve glob [] hp r
       = Inr (\<lparr>m = m (hd (fst (createPopulation (mcrange hp) (dps hp) (popSize hp) r))),
               c = c (hd (fst (createPopulation (mcrange hp) (dps hp) (popSize hp) r))),
               fitness = Some 0\<rparr>, 1)"
proof -
  assume ps: "1 \<le> popSize hp" and cy: "1 \<le> cycles hp"
  let ?init = "createPopulation (mcrange hp) (dps hp) (popSize hp) r"
  let ?zero = "\<lambda>a. \<lparr>m = m a, c = c a, fitness = Some (0::real)\<rparr>"
  have "length (fst ?init) = nat (popSize hp)" by (rule length_createPopulation)
  then have ne: "fst ?init \<noteq> []" using ps by auto
  have "\<forall>a \<in> set (fst ?init). fitness a = None"
    using fitness_createPopulation_loop by (auto simp add: createPopulation_def)
  then have sc: "scorePopulation glob (fst ?init) [] hp = Inr (map ?zero (fst ?init))"
    by (rule scorePopulation_no_data)
  have "best (map ?zero (fst ?init)) = Inr (hd (map ?zero (fst ?init)))"
    using ne by (intro best_all_zero) simp_all
  then have b: "best (map ?zero (fst ?init)) = Inr (?zero (hd (fst ?init)))"
    using ne by (simp add: hd_map)
  obtain n where n: "nat (cycles hp) = Suc n" using cy by (cases "nat (cycles hp)") simp_all
  show ?thesis
    by (simp add: evolve_def case_prod_beta n sc b)
qed

theorem evolve_no_data_witness:
  "1 \<le> popSize params_two_cycles
   \<and> 1 \<le> cycles params_two_cycles
   \<and> evolve None [] params_two_cycles (draws [1 / 10, 2 / 10, 3 / 10, 4 / 10])
       = Inr (\<lparr>m = 10, c = 20, fitness = Some 0\<rparr>, 1)"
  using evolve_no_data [of params_two_cycles None "draws [1 / 10, 2 / 10, 3 / 10, 4 / 10]"]
  by (simp add: run_simps)

text \<open>
  C5 as stated fails: on the empty dataset the call below returns a candidate of fitness
  0 with 1 cycle used, and no error.
\<close>

theorem evolve_no_data_counterexample:
  "evolve (Some defaults) [] (defaults\<lparr>cycles := 2, popSize := 3\<rparr>)
     (draws [5 / 10, 1 / 10, 3 / 10, 4 / 10, 7 / 10, 7 / 10])
   = Inr (\<lparr>m = 50, c = 10, fitness = Some 0\<rparr>, 1)"
  by (simp add: run_simps)

subsection \<open>What the evolution loop returns\<close>

text \<open>
  C6, as the program behaves: \<open>evolve\<close> always ends, by an exception or by a result.
  When it returns a candidate with \<open>k\<close> cycles used (for at least one cycle allowed),
  \<open>k\<close> lies between 1 and \<open>cycles\<close>, the iterations before iteration \<open>k - 1\<close> each
  went through with a best candidate of fitness other than 0, and either the best
  candidate of the scored population of iteration \<open>k - 1\<close> has fitness 0 and is the one
  returned, or \<open>k = cycles\<close> and the candidate returned is the best of the elite that
  selection drew from that scored population.
\<close>

theorem evolve_result:
  "evolve glob data hp r = Inr (b, k) \<Longrightarrow> 1 \<le> cycles hp \<Longrightarrow>
     1 \<le> k \<and> k \<le> cycles hp
     \<and> (\<exists>lastPopulation r1.
           generation glob data hp (nat (k - 1))
             (fst (createPopulation (mcrange hp) (dps hp) (popSize hp) r))
             (snd (createPopulation (mcrange hp) (dps hp) (popSize hp) r))
           = Some (lastPopulation, r1)
         \<and> outcome glob data hp lastPopulation r1 b k)"
proof -
  assume run: "evolve glob data hp r = Inr (b, k)" and cy: "1 \<le> cycles hp"
  let ?init = "createPopulation (mcrange hp) (dps hp) (popSize hp) r"
  have "evolve_loop glob data hp (nat (cycles hp)) 0 (fst ?init) (snd ?init) = Inr (b, k)"
    using run by (simp add: evolve_def case_prod_beta)
  moreover have "0 + int (nat (cycles hp)) = cycles hp" and "0 < nat (cycles hp)"
    using cy by simp_all
  ultimately have "0 < k \<and> k \<le> cycles hp
     \<and> (\<exists>lastPopulation r1.
           generation glob data hp (nat (k - 1 - 0)) (fst ?init) (snd ?init)
             = Some (lastPopulation, r1)
         \<and> outcome glob data hp lastPopulation r1 b k)"
    by (rule evolve_loop_result)
  then show ?thesis by simp
qed

theorem evolve_result_witness:
  "evolve (Some params_two_cycles) one_point params_two_cycles
     (draws [1 / 10, 2 / 10, 3 / 10, 4 / 10, 6 / 10, 1 / 10, 1 / 10, 6 / 10])
   = Inr (\<lparr>m = 10, c = 10, fitness = Some 20\<rparr>, 2)
   \<and> 1 \<le> cycles params_two_cycles
   \<and> generation (Some params_two_cycles) one_point params_two_cycles (nat (2 - 1))
       [\<lparr>m = 10, c = 20, fitness = None\<rparr>, \<lparr>m = 30, c = 40, fitness = None\<rparr>]
       (draws [6 / 10, 1 / 10, 1 / 10, 6 / 10])
     = Some ([\<lparr>m = 30, c = 40, fitness = Some 70\<rparr>, \<lparr>m = 10, c = 10, fitness = None\<rparr>],
             draws [6 / 10])
   \<and> outcome (Some params_two_cycles) one_point params_two_cycles
       [\<lparr>m = 30, c = 40, fitness = Some 70\<rparr>, \<lparr>m = 10, c = 10, fitness = None\<rparr>]
       (draws [6 / 10]) \<lparr>m = 10, c = 10, fitness = Some 20\<rparr> 2"
proof -
  let ?hp = "params_two_cycles"
  let ?r = "draws [1 / 10, 2 / 10, 3 / 10, 4 / 10, 6 / 10, 1 / 10, 1 / 10, 6 / 10]"
  let ?first = "[\<lparr>m = 10, c = 20, fitness = None\<rparr>, \<lparr>m = 30, c = 40, fitness = None\<rparr>]"
  let ?last = "[\<lparr>m = 30, c = 40, fitness = Some 70\<rparr>, \<lparr>m = 10, c = 10, fitness = None\<rparr>]"
  let ?b = "\<lparr>m = 10, c = 10, fitness = Some 20\<rparr>"
  have run: "evolve (Some ?hp) one_point ?hp ?r = Inr (?b, 2)"
    by (simp add: run_simps)
  have cy: "1 \<le> cycles ?hp"
    by (simp add: run_simps)
  have init: "createPopulation (mcrange ?hp) (dps ?hp) (popSize ?hp) ?r
                = (?first, draws [6 / 10, 1 / 10, 1 / 10, 6 / 10])"
    by (simp add: run_simps)
  have gen: "generation (Some ?hp) one_point ?hp (nat (2 - 1))
               ?first (draws [6 / 10, 1 / 10, 1 / 10, 6 / 10])
             = Some (?last, draws [6 / 10])"
    by (simp add: run_simps next_generation_def)
  obtain lastPopulation r1 where
    reached: "generation (Some ?hp) one_point ?hp (nat (2 - 1))
       (fst (createPopulation (mcrange ?hp) (dps ?hp) (popSize ?hp) ?r))
       (snd (createPopulation (mcrange ?hp) (dps ?hp) (popSize ?hp) ?r))
     = Some (lastPopulation, r1)"
    and out: "outcome (Some ?hp) one_point ?hp lastPopulation r1 ?b 2"
    using evolve_result [OF run cy] by blast
  have "generation (Some ?hp) one_point ?hp (nat (2 - 1))
          ?first (draws [6 / 10, 1 / 10, 1 / 10, 6 / 10]) = Some (lastPopulation, r1)"
    using reached unfolding init by (simp only: fst_conv snd_conv)
  then have "Some (?last, draws [6 / 10]) = Some (lastPopulation, r1)"
    unfolding gen .
  then have "lastPopulation = ?last" and "r1 = draws [6 / 10]"
    by (simp_all only: option.inject prod.inject)
  then have "outcome (Some ?hp) one_point ?hp ?last (draws [6 / 10]) ?b 2"
    using out by (simp only:)
  then show ?thesis using run cy gen by blast
qed

text \<open>
  C6 as stated fails twice. With the budget of one cycle exhausted, the first call below
  returns the candidate of fitness 70, while the best candidate of the generation it
  evaluated has fitness 30: the tournament drew the other member. And for a non-empty
  dataset and hyperparameters in their documented ranges, the second call returns
  nothing: its tournaments have \<open>round(1 * 0.4) = 0\<close> members, and the best of an empty
  sample raises \<open>IndexError\<close>.
\<close>

theorem evolve_result_counterexample:
  "evolve (Some params_one_cycle) one_point params_one_cycle
     (draws [1 / 10, 2 / 10, 3 / 10, 4 / 10, 6 / 10])
   = Inr (\<lparr>m = 30, c = 40, fitness = Some 70\<rparr>, 1)
   \<and> createPopulation (mcrange params_one_cycle) (dps params_one_cycle)
       (popSize params_one_cycle) (draws [1 / 10, 2 / 10, 3 / 10, 4 / 10, 6 / 10])
     = ([\<lparr>m = 10, c = 20, fitness = None\<rparr>, \<lparr>m = 30, c = 40, fitness = None\<rparr>],
        draws [6 / 10])
   \<and> scorePopulation (Some params_one_cycle)
       [\<lparr>m = 10, c = 20, fitness = None\<rparr>, \<lparr>m = 30, c = 40, fitness = None\<rparr>]
       one_point params_one_cycle
     = Inr [\<lparr>m = 10, c = 20, fitness = Some 30\<rparr>, \<lparr>m = 30, c = 40, fitness = Some 70\<rparr>]
   \<and> best [\<lparr>m = 10, c = 20, fitness = Some 30\<rparr>, \<lparr>m = 30, c = 40, fitness = Some 70\<rparr>]
     = Inr \<lparr>m = 10, c = 20, fitness = Some 30\<rparr>
   \<and> evolve (Some params_single) one_point params_single
       (draws [1 / 10, 2 / 10, 3 / 10, 4 / 10, 6 / 10])
     = Inl IndexError"
  by (simp add: run_simps)

subsection \<open>The precision used by scoring\<close>

text \<open>
  C7: the score is not computed with the precision of the hyperparameters passed to the
  call. \<open>__scorePopulation\<close> is passed a bundle with \<open>dps = 0\<close> while the module-level
  \<open>hyperParams\<close> has \<open>dps = 1\<close>: the residual 0.26 is scored 0.3, as \<open>dps = 1\<close> rounds
  it, not 0. With no module-level \<open>hyperParams\<close> the same call raises \<open>NameError\<close>.
\<close>

theorem scorePopulation_global_precision:
  "scorePopulation (Some (defaults\<lparr>dps := 1\<rparr>)) [\<lparr>m = 0, c = 0, fitness = None\<rparr>]
     [\<lparr>x = 0, y = 26 / 100\<rparr>] (defaults\<lparr>dps := 0\<rparr>)
     = Inr [\<lparr>m = 0, c = 0, fitness = Some (3 / 10)\<rparr>]
   \<and> \<bar>py_round (26 / 100 - (0 * 0 + 0)) (dps (defaults\<lparr>dps := 0\<rparr>))\<bar> = 0
   \<and> scorePopulation None [\<lparr>m = 0, c = 0, fitness = None\<rparr>]
       [\<lparr>x = 0, y = 26 / 100\<rparr>] (defaults\<lparr>dps := 0\<rparr>)
     = Inl NameError"
  by (simp add: run_simps)

subsection \<open>The size of a bred generation\<close>

text \<open>
  C8: every generation the breeder returns has exactly \<open>popSize\<close> members, and when the
  assembled list (elite, children, immigrants) has another length the breeder raises its
  error, carrying the actual and the required length, instead of returning.
\<close>

theorem breedPopulation_length:
  "(breedPopulation population hp r = Inr (gen, r') \<longrightarrow> int (length gen) = popSize hp)
   \<and> (sample (potentialChildren population)
         (childCount (potentialChildren population) population hp) r = Inr (children, r1)
       \<and> fresh = fst (createPopulation (mcrange hp) (dps hp)
                        (popSize hp - int (length children + length population))
                        (snd (mutate children hp r1)))
       \<and> int (length (population @ children @ fresh)) \<noteq> popSize hp
       \<longrightarrow> breedPopulation population hp r
             = Inl (LengthValueError (length (population @ children @ fresh)) (popSize hp)))"
proof (intro conjI impI)
  assume "breedPopulation population hp r = Inr (gen, r')"
  then show "int (length gen) = popSize hp" using breedPopulation_Inr by blast
next
  assume a: "sample (potentialChildren population)
         (childCount (potentialChildren population) population hp) r = Inr (children, r1)
       \<and> fresh = fst (createPopulation (mcrange hp) (dps hp)
                        (popSize hp - int (length children + length population))
                        (snd (mutate children hp r1)))
       \<and> int (length (population @ children @ fresh)) \<noteq> popSize hp"
  then show "breedPopulation population hp r
             = Inl (LengthValueError (length (population @ children @ fresh)) (popSize hp))"
    by (auto simp add: breedPopulation_def Let_def case_prod_beta)
qed

theorem breedPopulation_length_witness:
  "breedPopulation elite_one params_four (draws [6 / 10, 1 / 10, 1 / 2, 1 / 2, 1 / 10, 2 / 10])
   = Inr ([\<lparr>m = 1, c = 2, fitness = Some 3\<rparr>, \<lparr>m = 1, c = 2, fitness = None\<rparr>,
           \<lparr>m = 2, c = 1, fitness = None\<rparr>, \<lparr>m = 10, c = 20, fitness = None\<rparr>], [])
   \<and> int (length [\<lparr>m = 1, c = 2, fitness = Some 3\<rparr>, \<lparr>m = 1, c = 2, fitness = None\<rparr>,
           \<lparr>m = 2, c = 1, fitness = None\<rparr>, \<lparr>m = 10, c = 20, fitness = None\<rparr>])
       = popSize params_four
   \<and> breedPopulation elite_one (defaults\<lparr>popSize := 2, immigrationSize := - 1\<rparr>)
       (draws [6 / 10, 1 / 10])
     = Inl (LengthValueError 3 2)"
proof -
  let ?children = "[\<lparr>m = 1, c = 2, fitness = None\<rparr>, \<lparr>m = 2, c = 1, fitness = None\<rparr>]"
  let ?hp2 = "defaults\<lparr>popSize := 2, immigrationSize := - 1\<rparr>"
  let ?r1 = "draws [6 / 10, 1 / 10, 1 / 2, 1 / 2, 1 / 10, 2 / 10]"
  let ?r2 = "draws [6 / 10, 1 / 10]"
  let ?gen = "[\<lparr>m = 1, c = 2, fitness = Some 3\<rparr>, \<lparr>m = 1, c = 2, fitness = None\<rparr>,
               \<lparr>m = 2, c = 1, fitness = None\<rparr>, \<lparr>m = 10, c = 20, fitness = None\<rparr>]"
  have run1: "breedPopulation elite_one params_four ?r1 = Inr (?gen, [])"
    by (simp add: run_simps)
  have len1: "int (length ?gen) = popSize params_four"
    using breedPopulation_length [of elite_one params_four ?r1 ?gen "[]"] run1 by blast
  have pre2: "sample (potentialChildren elite_one)
                (childCount (potentialChildren elite_one) elite_one ?hp2) ?r2
                = Inr (?children, [])
       \<and> [] = fst (createPopulation (mcrange ?hp2) (dps ?hp2)
                        (popSize ?hp2 - int (length ?children + length elite_one))
                        (snd (mutate ?children ?hp2 [])))
       \<and> int (length (elite_one @ ?children @ [])) \<noteq> popSize ?hp2"
    by (simp add: run_simps)
  have "breedPopulation elite_one ?hp2 ?r2
          = Inl (LengthValueError (length (elite_one @ ?children @ [])) (popSize ?hp2))"
    using breedPopulation_length [of elite_one ?hp2 ?r2 _ _ ?children "[]" "[]"] pre2 by blast
  then have run2: "breedPopulation elite_one ?hp2 ?r2 = Inl (LengthValueError 3 2)"
    by (simp add: run_simps)
  show ?thesis using run1 len1 run2 by simp
qed

subsection \<open>The number of children sampled\<close>

text \<open>
  C9, as the program behaves: the number of children asked of \<open>random.sample\<close> is
  \<open>int(min(poolSize, popSize * (1 - immigrationSize) - eliteSize))\<close>, the product not
  rounded and the minimum truncated towards zero. When that number is negative the
  sampling raises \<open>ValueError\<close> and the breeder returns nothing. When the breeder
  returns, the number is not negative and the children in the generation are exactly that
  many members of the pool, drawn without replacement.
\<close>

theorem breedPopulation_sampling:
  "childCount (potentialChildren population) population hp
     = py_int (min (real (length (potentialChildren population)))
                 (of_int (popSize hp) * (1 - immigrationSize hp) - real (length population)))
   \<and> (childCount (potentialChildren population) population hp < 0
        \<longrightarrow> breedPopulation population hp r = Inl SampleValueError)
   \<and> (breedPopulation population hp r = Inr (gen, r')
        \<longrightarrow> 0 \<le> childCount (potentialChildren population) population hp
          \<and> length (take (nat (childCount (potentialChildren population) population hp))
                      (drop (length population) gen))
              = nat (childCount (potentialChildren population) population hp)
          \<and> distinct (take (nat (childCount (potentialChildren population) population hp))
                        (drop (length population) gen))
          \<and> mset (take (nat (childCount (potentialChildren population) population hp))
                    (drop (length population) gen))
              \<subseteq># mset (potentialChildren population))"
proof (intro conjI impI)
  show "childCount (potentialChildren population) population hp
     = py_int (min (real (length (potentialChildren population)))
                 (of_int (popSize hp) * (1 - immigrationSize hp) - real (length population)))"
    by (rule childCount_py_int)
next
  assume "childCount (potentialChildren population) population hp < 0"
  then show "breedPopulation population hp r = Inl SampleValueError"
    by (rule breedPopulation_negative)
next
  let ?pool = "potentialChildren population"
  let ?k = "childCount ?pool population hp"
  assume "breedPopulation population hp r = Inr (gen, r')"
  then obtain children r1 fresh where
    smp: "sample ?pool ?k r = Inr (children, r1)" and
    gen: "gen = population @ children @ fresh"
    using breedPopulation_Inr by blast
  have len: "length children = nat ?k" using smp by (rule sample_Inr(3))
  then have tk: "take (nat ?k) (drop (length population) gen) = children"
    by (simp add: gen)
  show "0 \<le> ?k" using smp by (rule sample_Inr(1))
  show "length (take (nat ?k) (drop (length population) gen)) = nat ?k"
    by (simp add: tk len)
  have "nat ?k \<le> length ?pool" using sample_Inr(2) [OF smp] by simp
  then have "distinct (fst (draw_sample (nat ?k) ?pool r))"
    using distinct_potentialChildren by (rule distinct_draw_sample)
  then show "distinct (take (nat ?k) (drop (length population) gen))"
    using sample_Inr(5) [OF smp] by (simp add: tk)
  show "mset (take (nat ?k) (drop (length population) gen)) \<subseteq># mset ?pool"
    using sample_Inr(4) [OF smp] by (simp add: tk)
qed

theorem breedPopulation_sampling_witness:
  "childCount (potentialChildren elite_three) elite_three params_all_golden < 0
   \<and> breedPopulation elite_three params_all_golden [] = Inl SampleValueError
   \<and> breedPopulation elite_one params_four
       (draws [6 / 10, 1 / 10, 1 / 2, 1 / 2, 1 / 10, 2 / 10])
     = Inr ([\<lparr>m = 1, c = 2, fitness = Some 3\<rparr>, \<lparr>m = 1, c = 2, fitness = None\<rparr>,
             \<lparr>m = 2, c = 1, fitness = None\<rparr>, \<lparr>m = 10, c = 20, fitness = None\<rparr>], [])
   \<and> childCount (potentialChildren elite_one) elite_one params_four = 2
   \<and> distinct (take (nat (childCount (potentialChildren elite_one) elite_one params_four))
                 (drop (length elite_one)
                    [\<lparr>m = 1, c = 2, fitness = Some 3\<rparr>, \<lparr>m = 1, c = 2, fitness = None\<rparr>,
                     \<lparr>m = 2, c = 1, fitness = None\<rparr>, \<lparr>m = 10, c = 20, fitness = None\<rparr>]))"
proof -
  let ?r = "draws [6 / 10, 1 / 10, 1 / 2, 1 / 2, 1 / 10, 2 / 10]"
  let ?gen = "[\<lparr>m = 1, c = 2, fitness = Some 3\<rparr>, \<lparr>m = 1, c = 2, fitness = None\<rparr>,
               \<lparr>m = 2, c = 1, fitness = None\<rparr>, \<lparr>m = 10, c = 20, fitness = None\<rparr>]"
  have neg: "childCount (potentialChildren elite_three) elite_three params_all_golden < 0"
    by (simp add: run_simps)
  have err: "breedPopulation elite_three params_all_golden [] = Inl SampleValueError"
    using breedPopulation_sampling [of elite_three params_all_golden "[]"] neg by blast
  have run: "breedPopulation elite_one params_four ?r = Inr (?gen, [])"
    by (simp add: run_simps)
  have two: "childCount (potentialChildren elite_one) elite_one params_four = 2"
    by (simp add: run_simps)
  have "distinct (take (nat (childCount (potentialChildren elite_one) elite_one params_four))
                 (drop (length elite_one) ?gen))"
    using breedPopulation_sampling [of elite_one params_four ?r ?gen "[]"] run by blast
  then show ?thesis using neg err run two by blast
qed

text \<open>
  C9 as stated fails twice. With \<open>popSize = 3\<close>, \<open>goldenSize = 1\<close> and
  \<open>immigrationSize = 0.5\<close> an elite of three asks for \<open>int(1.5 - 3) = -1\<close> children:
  the breeder does not take this for 0, it fails with the \<open>ValueError\<close> of
  \<open>random.sample\<close>. And with \<open>popSize = 10\<close>, \<open>goldenSize = 0.3\<close> and
  \<open>immigrationSize = 0.25\<close> the same elite, whose pool has 18 members, gets
  \<open>int(7.5 - 3) = 4\<close> children, not \<open>round(7.5) - 3 = 5\<close>.
\<close>

theorem breedPopulation_sampling_counterexample:
  "childCount (potentialChildren elite_three) elite_three params_all_golden = - 1
   \<and> breedPopulation elite_three params_all_golden [] = Inl SampleValueError
   \<and> length (potentialChildren elite_three) = 18
   \<and> childCount (potentialChildren elite_three) elite_three params_ten = 4
   \<and> min (int (length (potentialChildren elite_three)))
         (round_half_even (of_int (popSize params_ten) * (1 - immigrationSize params_ten))
            - int (length elite_three)) = 5"
  by (simp add: run_simps)

subsection \<open>The size of a tournament\<close>

text \<open>
  C10, as the program behaves: every tournament draws
  \<open>int(round(popSize * tournamentSize, 0))\<close> members, with no lower bound of 1. When that
  number is 0 and at least one tournament is to be run, selection fails with the
  \<open>IndexError\<close> of the best of an empty sample. When it is at least 1 and at most the
  size of a population whose members all have a fitness, selection returns
  \<open>int(round(popSize * goldenSize, 0))\<close> winners, each the best of a sample of that many
  members drawn without replacement.
\<close>

theorem selectPopulation_sample_size:
  "(round_half_even (of_int (popSize hp) * tournamentSize hp) = 0
      \<and> 0 < round_half_even (of_int (popSize hp) * goldenSize hp)
      \<longrightarrow> selectPopulation population hp r = Inl IndexError)
   \<and> (1 \<le> round_half_even (of_int (popSize hp) * tournamentSize hp)
      \<and> round_half_even (of_int (popSize hp) * tournamentSize hp) \<le> int (length population)
      \<and> (\<forall>a \<in> set population. fitness a \<noteq> None)
      \<longrightarrow> (\<exists>winners r'. selectPopulation population hp r = Inr (winners, r')
            \<and> length winners = nat (round_half_even (of_int (popSize hp) * goldenSize hp))
            \<and> (\<forall>w \<in> set winners. \<exists>drawn.
                  length drawn = nat (round_half_even (of_int (popSize hp) * tournamentSize hp))
                  \<and> mset drawn \<subseteq># mset population \<and> best drawn = Inr w)))"
proof (intro conjI impI)
  assume "round_half_even (of_int (popSize hp) * tournamentSize hp) = 0
      \<and> 0 < round_half_even (of_int (popSize hp) * goldenSize hp)"
  then show "selectPopulation population hp r = Inl IndexError"
    by (simp add: selectPopulation_def tournaments_empty_sample)
next
  assume "1 \<le> round_half_even (of_int (popSize hp) * tournamentSize hp)
      \<and> round_half_even (of_int (popSize hp) * tournamentSize hp) \<le> int (length population)
      \<and> (\<forall>a \<in> set population. fitness a \<noteq> None)"
  then show "\<exists>winners r'. selectPopulation population hp r = Inr (winners, r')
            \<and> length winners = nat (round_half_even (of_int (popSize hp) * goldenSize hp))
            \<and> (\<forall>w \<in> set winners. \<exists>drawn.
                  length drawn = nat (round_half_even (of_int (popSize hp) * tournamentSize hp))
                  \<and> mset drawn \<subseteq># mset population \<and> best drawn = Inr w)"
    unfolding selectPopulation_def by (intro tournaments_scored) simp_all
qed

theorem selectPopulation_sample_size_witness:
  "round_half_even (of_int (popSize params_single) * tournamentSize params_single) = 0
   \<and> 0 < round_half_even (of_int (popSize params_single) * goldenSize params_single)
   \<and> selectPopulation [\<lparr>m = 10, c = 20, fitness = Some 30\<rparr>] params_single [] = Inl IndexError
   \<and> 1 \<le> round_half_even (of_int (popSize params_one_cycle) * tournamentSize params_one_cycle)
   \<and> round_half_even (of_int (popSize params_one_cycle) * tournamentSize params_one_cycle)
       \<le> int (length [\<lparr>m = 10, c = 20, fitness = Some 30\<rparr>, \<lparr>m = 30, c = 40, fitness = Some 70\<rparr>])
   \<and> (\<exists>winners r'.
          selectPopulation [\<lparr>m = 10, c = 20, fitness = Some 30\<rparr>, \<lparr>m = 30, c = 40, fitness = Some 70\<rparr>]
            params_one_cycle (draws [6 / 10]) = Inr (winners, r')
        \<and> length winners
            = nat (round_half_even (of_int (popSize params_one_cycle) * goldenSize params_one_cycle)))"
proof -
  let ?one = "[\<lparr>m = 10, c = 20, fitness = Some 30\<rparr>]"
  let ?two = "[\<lparr>m = 10, c = 20, fitness = Some 30\<rparr>, \<lparr>m = 30, c = 40, fitness = Some 70\<rparr>]"
  have zero: "round_half_even (of_int (popSize params_single) * tournamentSize params_single) = 0
      \<and> 0 < round_half_even (of_int (popSize params_single) * goldenSize params_single)"
    by (simp add: run_simps)
  have err: "selectPopulation ?one params_single [] = Inl IndexError"
    using selectPopulation_sample_size [of params_single ?one "[]"] zero by blast
  have pre: "1 \<le> round_half_even (of_int (popSize params_one_cycle) * tournamentSize params_one_cycle)
      \<and> round_half_even (of_int (popSize params_one_cycle) * tournamentSize params_one_cycle)
          \<le> int (length ?two)
      \<and> (\<forall>a \<in> set ?two. fitness a \<noteq> None)"
    by (simp add: run_simps)
  have "\<exists>winners r'. selectPopulation ?two params_one_cycle (draws [6 / 10]) = Inr (winners, r')
          \<and> length winners
              = nat (round_half_even (of_int (popSize params_one_cycle) * goldenSize params_one_cycle))"
    using selectPopulation_sample_size [of params_one_cycle ?two "draws [6 / 10]"] pre
    by blast
  then show ?thesis using zero err pre by blast
qed

text \<open>
  C10 as stated fails: with \<open>popSize = 1\<close> and \<open>tournamentSize = 0.4\<close> the sample size
  \<open>round(0.4) = 0\<close> is not raised to 1, and selection over a scored population of one
  member fails.
\<close>

theorem selectPopulation_sample_size_counterexample:
  "round_half_even (of_int (popSize params_single) * tournamentSize params_single) = 0
   \<and> selectPopulation [\<lparr>m = 10, c = 20, fitness = Some 30\<rparr>] params_single [] = Inl IndexError"
  by (simp add: run_simps)

end
